theory Spec2Isabelle
  imports Main "HOL-Library.AList"
begin

section \<open>Values, documents and the document store\<close>

text \<open>
  Request bodies and stored documents are JSON data. An object keeps its members in
  insertion order, as a JavaScript object does, so it is an association list.
\<close>

datatype json =
    JNull
  | JBool bool
  | JNum int
  | JStr string
  | JArr "json list"
  | JObj "(string \<times> json) list"

text \<open>The attributes of a stored document: a field-name-to-value mapping.\<close>

type_synonym fields = "(string \<times> json) list"

text \<open>A collection maps the identifier of each stored document to its attributes.\<close>

type_synonym collection = "(string \<times> fields) list"

text \<open>A loaded document: its identifier and its attributes.\<close>

type_synonym document = "string \<times> fields"

record db =
  products :: collection
  favorites :: collection
  users :: collection

text \<open>
  The failures that travel through a handler's promise chain. \<open>DbError\<close> stands for
  every failure of the store that has no kind of its own.
\<close>

datatype error = NotFound | Forbidden | Validation | TypeError | DbError

text \<open>A settled promise: \<open>Inl\<close> is a rejection, \<open>Inr\<close> a fulfilment.\<close>

type_synonym 'a promise = "error + 'a"

text \<open>
  What is outside the module and decides a request: the bearer-token verifier
  (token to user identity), the store's identifier generator, for each store
  operation whether the store rejects it (schema validation, an identifier it cannot
  cast, a lost connection), the error with which the driver refuses a value that cannot
  be a document, and what the driver makes of an update that is not a plain field or a
  \<open>$set\<close> of plain fields (another operator, a dotted path, a pipeline).
\<close>

record env =
  verify :: "string \<Rightarrow> string option"
  fresh_id :: "collection \<Rightarrow> string"
  query_fails :: "error option"
  lookup_fails :: "string \<Rightarrow> error option"
  create_fails :: "fields \<Rightarrow> error option"
  update_fails :: "string \<Rightarrow> json \<Rightarrow> error option"
  delete_fails :: "string \<Rightarrow> error option"
  refuses :: "json \<Rightarrow> error"
  driver_update :: "json \<Rightarrow> fields \<Rightarrow> fields"

text \<open>
  A request: the bearer token, if one was sent, the path parameters, and the parsed JSON
  body, which may be any JSON value.
\<close>

record request =
  token :: "string option"
  params_id :: string
  params_category :: string
  body :: json

text \<open>
  What a route does with a request: it sends a response (status and JSON body, if any),
  or passes an error to \<open>next\<close>, or throws before its promise chain exists.
\<close>

datatype outcome = Respond nat "json option" | Next error | Throws error

text \<open>
  The result of a route: the outcome, the store afterwards, and the rejections of
  promises that nothing handles.
\<close>

record result =
  sent :: outcome
  store :: db
  unhandled :: "error list"

subsection \<open>Members of JavaScript values\<close>

text \<open>
  \<open>x.k\<close> on a parsed JSON value: the member of an object, and \<open>undefined\<close>
  (\<open>None\<close>) when the object has no such key or \<open>x\<close> is a list or a primitive value.
  The routes read only the keys \<open>product\<close> and \<open>favorite\<close> this way and dereference
  the result at once, so reading a member of null, which throws by itself, is merged
  with the dereference of \<open>undefined\<close> that follows.
\<close>

definition js_member :: "json \<Rightarrow> string \<Rightarrow> json option" where
  "js_member x k = (case x of JObj kvs \<Rightarrow> map_of kvs k | _ \<Rightarrow> None)"

text \<open>Reading or writing a property of \<open>undefined\<close> or of null throws a TypeError.\<close>

definition deref :: "json option \<Rightarrow> json promise" where
  "deref x =
     (case x of
        None \<Rightarrow> Inl TypeError
      | Some v \<Rightarrow> (if v = JNull then Inl TypeError else Inr v))"

text \<open>
  \<open>x.k = v\<close> on a value that is not null: an object gets or replaces the member. On
  a list the assignment adds a property that is no element of the list, and on a
  primitive value it is dropped (the module is not in strict mode); the JSON value is
  the same in both cases.
\<close>

definition js_assign :: "json \<Rightarrow> string \<Rightarrow> json \<Rightarrow> json" where
  "js_assign x k v = (case x of JObj kvs \<Rightarrow> JObj (AList.update k v kvs) | _ \<Rightarrow> x)"

text \<open>\<open>delete x.k\<close> on a value that is not null: an object loses the member.\<close>

definition js_delete :: "json \<Rightarrow> string \<Rightarrow> json" where
  "js_delete x k = (case x of JObj kvs \<Rightarrow> JObj (AList.delete k kvs) | _ \<Rightarrow> x)"

subsection \<open>Promise chaining\<close>

text \<open>
  \<open>p.then(f)\<close>: a rejection skips \<open>f\<close>; a fulfilment runs it, and a throw inside
  \<open>f\<close> rejects the resulting promise.
\<close>

definition then_p :: "'a promise \<Rightarrow> ('a \<Rightarrow> 'b promise) \<Rightarrow> 'b promise" where
  "then_p p f = (case p of Inl e \<Rightarrow> Inl e | Inr v \<Rightarrow> f v)"

subsection \<open>Store operations\<close>

text \<open>
  The store is the document database behind the two models, reached through the
  object-document mapper. Its operations are modelled as the routes use them; what
  depends on the schemas of the models, which are not among the sources, or on the
  database itself is left to \<open>env\<close>.
\<close>

text \<open>\<open>Model.find(filter)\<close>: the documents that satisfy the filter, in stored order.\<close>

definition find_docs :: "env \<Rightarrow> collection \<Rightarrow> (document \<Rightarrow> bool) \<Rightarrow> document list promise" where
  "find_docs e coll flt =
     (case query_fails e of Some err \<Rightarrow> Inl err | None \<Rightarrow> Inr (filter flt coll))"

text \<open>\<open>Model.findById(id)\<close>: the document or null.\<close>

definition findById :: "env \<Rightarrow> collection \<Rightarrow> string \<Rightarrow> document option promise" where
  "findById e coll i =
     (case lookup_fails e i of
        Some err \<Rightarrow> Inl err
      | None \<Rightarrow> Inr (map_option (Pair i) (map_of coll i)))"

text \<open>
  The fields a value gives to a new document: those of an object; none for null and
  for a list; a primitive value cannot be a document.
\<close>

fun doc_fields :: "json \<Rightarrow> fields option" where
  "doc_fields (JObj fs) = Some fs"
| "doc_fields JNull = Some []"
| "doc_fields (JArr vs) = Some []"
| "doc_fields v = None"

text \<open>
  One document is made and saved: its fields are stored under a new identifier;
  identifiers are unique in a collection.
\<close>

definition create_one :: "env \<Rightarrow> collection \<Rightarrow> json \<Rightarrow> document promise \<times> collection" where
  "create_one e coll v =
     (case doc_fields v of
        None \<Rightarrow> (Inl (refuses e v), coll)
      | Some fs \<Rightarrow>
          (case create_fails e fs of
             Some err \<Rightarrow> (Inl err, coll)
           | None \<Rightarrow>
               (let i = fresh_id e coll in
                if i \<in> fst ` set coll then (Inl DbError, coll)
                else (Inr (i, fs), coll @ [(i, fs)]))))"

text \<open>
  A list of values: every element is made and saved on its own. The result is the
  documents saved, the first error if an element was rejected, and the collection.
\<close>

fun create_many :: "env \<Rightarrow> collection \<Rightarrow> json list \<Rightarrow> document list \<times> error option \<times> collection" where
  "create_many e coll [] = ([], None, coll)"
| "create_many e coll (v # vs) =
     (case create_one e coll v of
        (Inl err, coll1) \<Rightarrow>
          (case create_many e coll1 vs of (docs, first, coll2) \<Rightarrow> (docs, Some err, coll2))
      | (Inr doc, coll1) \<Rightarrow>
          (case create_many e coll1 vs of (docs, first, coll2) \<Rightarrow> (doc # docs, first, coll2)))"

text \<open>What \<open>Model.create\<close> resolves to: one document, or a list of documents.\<close>

datatype created = One document | Many "document list"

text \<open>
  \<open>Model.create(payload)\<close>: a list payload creates one document for each of its
  elements and resolves to the list of them; any other payload creates one document.
  The promise is rejected with the first error; documents already saved stay.
\<close>

definition create :: "env \<Rightarrow> collection \<Rightarrow> json \<Rightarrow> created promise \<times> collection" where
  "create e coll payload =
     (case payload of
        JArr vs \<Rightarrow>
          (case create_many e coll vs of
             (docs, first, coll') \<Rightarrow>
               ((case first of Some err \<Rightarrow> Inl err | None \<Rightarrow> Inr (Many docs)), coll'))
      | _ \<Rightarrow>
          (case create_one e coll payload of
             (p, coll') \<Rightarrow> (then_p p (\<lambda>doc. Inr (One doc)), coll')))"

text \<open>
  Keys of an update: an operator starts with \<open>$\<close>, a dotted key is a path into a
  nested value, any other key names a field.
\<close>

fun is_operator :: "string \<Rightarrow> bool" where
  "is_operator [] = False"
| "is_operator (c # cs) = (c = CHR ''$'')"

definition is_field :: "string \<Rightarrow> bool" where
  "is_field k = (\<not> is_operator k \<and> CHR ''.'' \<notin> set k)"

text \<open>One entry of a \<open>$set\<close>: the field gets the value.\<close>

definition set_entry :: "env \<Rightarrow> string \<times> json \<Rightarrow> fields \<Rightarrow> fields" where
  "set_entry e kv stored =
     (if is_field (fst kv) then AList.update (fst kv) (snd kv) stored
      else driver_update e (JObj [(''$set'', JObj [kv])]) stored)"

text \<open>
  One top-level entry of an update document: \<open>$set\<close> with an object sets each of its
  entries; a field name sets that field, as if it stood under \<open>$set\<close>.
\<close>

definition apply_entry :: "env \<Rightarrow> string \<times> json \<Rightarrow> fields \<Rightarrow> fields" where
  "apply_entry e kv stored =
     (if fst kv = ''$set'' then
        (case snd kv of
           JObj sets \<Rightarrow> fold (set_entry e) sets stored
         | _ \<Rightarrow> driver_update e (JObj [kv]) stored)
      else if is_field (fst kv) then AList.update (fst kv) (snd kv) stored
      else driver_update e (JObj [kv]) stored)"

text \<open>An update applied to the stored fields; fields it does not touch are kept.\<close>

definition apply_update :: "env \<Rightarrow> fields \<Rightarrow> json \<Rightarrow> fields" where
  "apply_update e stored payload =
     (case payload of
        JObj kvs \<Rightarrow> fold (apply_entry e) kvs stored
      | _ \<Rightarrow> driver_update e payload stored)"

text \<open>\<open>doc.updateOne(payload)\<close>: the update is applied to the stored document with that identifier.\<close>

definition updateOne :: "env \<Rightarrow> document \<Rightarrow> json \<Rightarrow> collection \<Rightarrow> collection promise" where
  "updateOne e doc payload coll =
     (case update_fails e (fst doc) payload of
        Some err \<Rightarrow> Inl err
      | None \<Rightarrow> Inr (AList.map_entry (fst doc) (\<lambda>stored. apply_update e stored payload) coll))"

text \<open>\<open>doc.deleteOne()\<close>: the stored document with that identifier is removed.\<close>

definition deleteOne :: "env \<Rightarrow> document \<Rightarrow> collection \<Rightarrow> collection promise" where
  "deleteOne e doc coll =
     (case delete_fails e (fst doc) of
        Some err \<Rightarrow> Inl err
      | None \<Rightarrow> Inr (AList.delete (fst doc) coll))"

text \<open>\<open>doc.toObject()\<close>: the plain object of a document, its identifier first.\<close>

definition toObject :: "document \<Rightarrow> json" where
  "toObject doc = JObj ((''_id'', JStr (fst doc)) # snd doc)"

text \<open>
  \<open>product.toObject()\<close> on what \<open>Model.create\<close> resolved to: a list of documents has
  no such method, and the call throws a TypeError.
\<close>

definition created_toObject :: "created \<Rightarrow> json promise" where
  "created_toObject c = (case c of One doc \<Rightarrow> Inr (toObject doc) | Many docs \<Rightarrow> Inl TypeError)"

text \<open>
  \<open>.populate(path)\<close>: a reference held under \<open>path\<close> is replaced by the referenced
  document, or by null when there is none.
\<close>

definition populate :: "collection \<Rightarrow> string \<Rightarrow> document \<Rightarrow> document" where
  "populate refs path doc =
     (case map_of (snd doc) path of
        Some (JStr r) \<Rightarrow>
          (fst doc,
           AList.update path
             (case map_of refs r of Some d \<Rightarrow> toObject (r, d) | None \<Rightarrow> JNull) (snd doc))
      | _ \<Rightarrow> doc)"

section \<open>Helpers of the routes\<close>

text \<open>
  Modelled from the spec: \<open>handle404\<close> of lib/custom_errors, which is not among the
  sources. Section 4.1: an absent lookup result fails with NotFound, a present one is
  returned unchanged. The routes call it with the lookup result alone, so the error
  carries no data here.
\<close>

definition handle404 :: "'a option \<Rightarrow> 'a promise" where
  "handle404 record = (case record of None \<Rightarrow> Inl NotFound | Some r \<Rightarrow> Inr r)"

text \<open>
  Modelled from the spec: \<open>requireOwnership\<close> of lib/custom_errors, which is not among
  the sources. Section 4.2: if the resource's owner does not equal the requester's
  identity it fails with Forbidden; on success it returns nothing.
\<close>

definition requireOwnership :: "string \<Rightarrow> document \<Rightarrow> unit promise" where
  "requireOwnership uid resource =
     (if map_of (snd resource) ''owner'' = Some (JStr uid) then Inr () else Inl Forbidden)"

text \<open>
  Modelled from the spec: \<open>removeBlanks\<close> of lib/remove_blank_fields, which is not among
  the sources. Section 4.3: it takes a nested field-name-to-value mapping and recursively
  removes every key whose value is the empty string; other values are untouched, nested
  mappings are pruned in turn.
\<close>

fun removeBlanks :: "fields \<Rightarrow> fields"
  and removeBlanks_value :: "json \<Rightarrow> json" where
  "removeBlanks [] = []"
| "removeBlanks ((k, v) # kvs) =
     (if v = JStr '''' then removeBlanks kvs else (k, removeBlanks_value v) # removeBlanks kvs)"
| "removeBlanks_value (JObj kvs) = JObj (removeBlanks kvs)"
| "removeBlanks_value v = v"

text \<open>
  Modelled from the spec: the same module used as a middleware. It prunes the payload
  under each key of the request body and adds or removes no key of the body itself
  (the source's comment: \<open>{ example: { title: '', text: 'foo' } } -> { example: { text: 'foo' } }\<close>);
  a payload that is no mapping, and a body that is no object, are left as they are.
\<close>

definition removeBlanks_mw :: "request \<Rightarrow> request" where
  "removeBlanks_mw req =
     req\<lparr>body :=
       (case body req of
          JObj kvs \<Rightarrow> JObj (map (\<lambda>(k, payload). (k, removeBlanks_value payload)) kvs)
        | b \<Rightarrow> b)\<rparr>"

text \<open>
  \<open>requireToken\<close>: the bearer strategy of the authentication library. It yields the
  identity of the requester (\<open>req.user.id\<close>), or nothing when the token is missing or
  not accepted.
\<close>

definition requireToken :: "env \<Rightarrow> request \<Rightarrow> string option" where
  "requireToken e req = (case token req of None \<Rightarrow> None | Some t \<Rightarrow> verify e t)"

text \<open>
  The reply of a request that the authentication library turns away: status 401, and
  the route's handler is never run.
\<close>

definition unauthorized :: "db \<Rightarrow> result" where
  "unauthorized d = \<lparr>sent = Respond 401 None, store = d, unhandled = []\<rparr>"

text \<open>
  \<open>.catch(next)\<close> at the end of a chain, with the store as the chain left it: a
  rejection goes to \<open>next\<close>, otherwise the response of the last \<open>then\<close> has been sent.
\<close>

definition catch_next :: "db \<Rightarrow> outcome promise \<Rightarrow> result" where
  "catch_next d p =
     \<lparr>sent = (case p of Inl err \<Rightarrow> Next err | Inr r \<Rightarrow> r), store = d, unhandled = []\<rparr>"

text \<open>A query with \<open>.populate(path)\<close> attached: each document found is populated.\<close>

definition populate_one :: "collection \<Rightarrow> string \<Rightarrow> document option promise \<Rightarrow> document option promise" where
  "populate_one refs path q = then_p q (\<lambda>r. Inr (map_option (populate refs path) r))"

definition populate_all :: "collection \<Rightarrow> string \<Rightarrow> document list promise \<Rightarrow> document list promise" where
  "populate_all refs path q = then_p q (\<lambda>rs. Inr (map (populate refs path) rs))"

section \<open>The routes\<close>

subsection \<open>Products\<close>

text \<open>GET /products\<close>

definition get_products :: "env \<Rightarrow> request \<Rightarrow> db \<Rightarrow> result" where
  "get_products e req d =
     catch_next d
       (then_p
         (then_p (find_docs e (products d) (\<lambda>_. True))
            (\<lambda>ps. Inr (map toObject ps)))
         (\<lambda>ps. Inr (Respond 200 (Some (JObj [(''products'', JArr ps)])))))"

text \<open>GET /products/category/:category\<close>

definition get_products_category :: "env \<Rightarrow> request \<Rightarrow> db \<Rightarrow> result" where
  "get_products_category e req d =
     (let category = params_category req in
      catch_next d
        (then_p
          (then_p
             (find_docs e (products d)
                (\<lambda>doc. map_of (snd doc) ''category'' = Some (JStr category)))
             (\<lambda>ps. Inr (map toObject ps)))
          (\<lambda>ps. Inr (Respond 200 (Some (JObj [(''products'', JArr ps)]))))))"


text \<open>
  POST /products, behind \<open>requireToken\<close>. The assignment to
  \<open>req.body.product.owner\<close> runs before the chain exists: when \<open>req.body.product\<close>
  is \<open>undefined\<close> or null it throws. What \<open>create\<close> has saved stays saved when a
  later step of the chain throws.
\<close>

definition post_products :: "env \<Rightarrow> request \<Rightarrow> db \<Rightarrow> result" where
  "post_products e req d =
     (case requireToken e req of
        None \<Rightarrow> unauthorized d
      | Some uid \<Rightarrow>
          (case deref (js_member (body req) ''product'') of
             Inl err \<Rightarrow> \<lparr>sent = Throws err, store = d, unhandled = []\<rparr>
           | Inr product \<Rightarrow>
               (let payload = js_assign product ''owner'' (JStr uid) in
                case create e (products d) payload of
                  (p, coll) \<Rightarrow>
                    catch_next (d\<lparr>products := coll\<rparr>)
                      (then_p p
                        (\<lambda>product.
                           then_p (created_toObject product)
                             (\<lambda>obj. Inr (Respond 201 (Some (JObj [(''product'', obj)])))))))))"

text \<open>
  PATCH /products/:id, behind \<open>requireToken\<close> and \<open>removeBlanks\<close>. The
  \<open>owner\<close> key is deleted from the payload before the chain exists; the promise of
  \<open>updateOne\<close> is returned into the chain.
\<close>

definition patch_products_id :: "env \<Rightarrow> request \<Rightarrow> db \<Rightarrow> result" where
  "patch_products_id e req0 d =
     (case requireToken e req0 of
        None \<Rightarrow> unauthorized d
      | Some uid \<Rightarrow>
          (let req = removeBlanks_mw req0 in
           case deref (js_member (body req) ''product'') of
             Inl err \<Rightarrow> \<lparr>sent = Throws err, store = d, unhandled = []\<rparr>
           | Inr product \<Rightarrow>
               (let payload = js_delete product ''owner'' in
                case then_p
                       (then_p (findById e (products d) (params_id req)) handle404)
                       (\<lambda>product.
                          then_p (requireOwnership uid product)
                            (\<lambda>_. updateOne e product payload (products d))) of
                  Inl err \<Rightarrow> \<lparr>sent = Next err, store = d, unhandled = []\<rparr>
                | Inr coll \<Rightarrow>
                    \<lparr>sent = Respond 204 None, store = d\<lparr>products := coll\<rparr>,
                     unhandled = []\<rparr>)))"

text \<open>
  DELETE /products/:id, behind \<open>requireToken\<close>. The callback calls \<open>deleteOne\<close> and
  returns nothing: the chain goes on with the deletion's promise left aside
  (\<open>detached\<close>), and a rejection of it has no handler.
\<close>

definition delete_products_id :: "env \<Rightarrow> request \<Rightarrow> db \<Rightarrow> result" where
  "delete_products_id e req d =
     (case requireToken e req of
        None \<Rightarrow> unauthorized d
      | Some uid \<Rightarrow>
          (case then_p
                  (then_p (findById e (products d) (params_id req)) handle404)
                  (\<lambda>product.
                     then_p (requireOwnership uid product)
                       (\<lambda>_. Inr (deleteOne e product (products d)))) of
             Inl err \<Rightarrow> \<lparr>sent = Next err, store = d, unhandled = []\<rparr>
           | Inr detached \<Rightarrow>
               (case detached of
                  Inl err \<Rightarrow> \<lparr>sent = Respond 204 None, store = d, unhandled = [err]\<rparr>
                | Inr coll \<Rightarrow>
                    \<lparr>sent = Respond 204 None, store = d\<lparr>products := coll\<rparr>,
                     unhandled = []\<rparr>)))"

subsection \<open>Favorites\<close>

text \<open>GET /favorites\<close>

definition get_favorites :: "env \<Rightarrow> request \<Rightarrow> db \<Rightarrow> result" where
  "get_favorites e req d =
     catch_next d
       (then_p
         (then_p
            (populate_all (users d) ''owner''
               (populate_all (products d) ''product''
                  (find_docs e (favorites d) (\<lambda>_. True))))
            (\<lambda>fs. Inr (map toObject fs)))
         (\<lambda>fs. Inr (Respond 200 (Some (JObj [(''favorites'', JArr fs)])))))"

text \<open>POST /favorites, behind \<open>requireToken\<close>; as for products.\<close>

definition post_favorites :: "env \<Rightarrow> request \<Rightarrow> db \<Rightarrow> result" where
  "post_favorites e req d =
     (case requireToken e req of
        None \<Rightarrow> unauthorized d
      | Some uid \<Rightarrow>
          (case deref (js_member (body req) ''favorite'') of
             Inl err \<Rightarrow> \<lparr>sent = Throws err, store = d, unhandled = []\<rparr>
           | Inr favorite \<Rightarrow>
               (let payload = js_assign favorite ''owner'' (JStr uid) in
                case create e (favorites d) payload of
                  (p, coll) \<Rightarrow>
                    catch_next (d\<lparr>favorites := coll\<rparr>)
                      (then_p p
                        (\<lambda>favorite.
                           then_p (created_toObject favorite)
                             (\<lambda>obj. Inr (Respond 201 (Some (JObj [(''favorite'', obj)])))))))))"

text \<open>DELETE /favorites/:id, behind \<open>requireToken\<close>; as for products.\<close>

definition delete_favorites_id :: "env \<Rightarrow> request \<Rightarrow> db \<Rightarrow> result" where
  "delete_favorites_id e req d =
     (case requireToken e req of
        None \<Rightarrow> unauthorized d
      | Some uid \<Rightarrow>
          (case then_p
                  (then_p (findById e (favorites d) (params_id req)) handle404)
                  (\<lambda>favorite.
                     then_p (requireOwnership uid favorite)
                       (\<lambda>_. Inr (deleteOne e favorite (favorites d)))) of
             Inl err \<Rightarrow> \<lparr>sent = Next err, store = d, unhandled = []\<rparr>
           | Inr detached \<Rightarrow>
               (case detached of
                  Inl err \<Rightarrow> \<lparr>sent = Respond 204 None, store = d, unhandled = [err]\<rparr>
                | Inr coll \<Rightarrow>
                    \<lparr>sent = Respond 204 None, store = d\<lparr>favorites := coll\<rparr>,
                     unhandled = []\<rparr>)))"

section \<open>The error responder\<close>



section \<open>Notions used by the properties\<close>

text \<open>
  The owner field of the document stored under an identifier: \<open>None\<close> when there is
  no such document, \<open>Some None\<close> when the document has no owner field.
\<close>

definition owner_of :: "collection \<Rightarrow> string \<Rightarrow> json option option" where
  "owner_of coll i = map_option (\<lambda>fs. map_of fs ''owner'') (map_of coll i)"

text \<open>A mapping with no empty-string value at any depth of nested mappings.\<close>

fun no_blanks :: "fields \<Rightarrow> bool"
  and no_blanks_value :: "json \<Rightarrow> bool" where
  "no_blanks [] = True"
| "no_blanks ((k, v) # kvs) = (v \<noteq> JStr '''' \<and> no_blanks_value v \<and> no_blanks kvs)"
| "no_blanks_value (JObj kvs) = no_blanks kvs"
| "no_blanks_value v = True"

subsection \<open>A small store for concrete runs\<close>

text \<open>
  Two users; \<open>u1\<close> owns product \<open>p1\<close> and favorite \<open>f1\<close>, \<open>u2\<close> owns product
  \<open>p2\<close>. Token \<open>t1\<close> is \<open>u1\<close>'s and \<open>t2\<close> is \<open>u2\<close>'s. The store of
  \<open>demo_env\<close> answers every operation; that of \<open>demo_env_failing\<close> rejects every
  update and every deletion; that of \<open>demo_env_ids\<close> rejects the lookup of the
  identifier \<open>not-an-id\<close>, which it cannot cast.
\<close>

definition demo_db :: db where
  "demo_db =
     \<lparr>products =
        [(''p1'', [(''category'', JStr ''tools''), (''owner'', JStr ''u1'')]),
         (''p2'', [(''category'', JStr ''toys''), (''owner'', JStr ''u2'')])],
      favorites = [(''f1'', [(''product'', JStr ''p1''), (''owner'', JStr ''u1'')])],
      users = [(''u1'', [(''email'', JStr ''a@b'')]), (''u2'', [(''email'', JStr ''c@d'')])]\<rparr>"

definition demo_env :: env where
  "demo_env =
     \<lparr>verify =
        (\<lambda>t. if t = ''t1'' then Some ''u1'' else if t = ''t2'' then Some ''u2'' else None),
      fresh_id = (\<lambda>coll. ''new''),
      query_fails = None,
      lookup_fails = (\<lambda>i. None),
      create_fails = (\<lambda>fs. None),
      update_fails = (\<lambda>i payload. None),
      delete_fails = (\<lambda>i. None),
      refuses = (\<lambda>v. DbError),
      driver_update = (\<lambda>u stored. stored)\<rparr>"

definition demo_env_failing :: env where
  "demo_env_failing =
     demo_env\<lparr>update_fails := (\<lambda>i payload. Some DbError), delete_fails := (\<lambda>i. Some DbError)\<rparr>"

definition demo_env_ids :: env where
  "demo_env_ids =
     demo_env\<lparr>lookup_fails := (\<lambda>i. if i = ''not-an-id'' then Some DbError else None)\<rparr>"

definition demo_req :: "string \<Rightarrow> string \<Rightarrow> json \<Rightarrow> request" where
  "demo_req t i b = \<lparr>token = Some t, params_id = i, params_category = ''tools'', body = b\<rparr>"

lemmas demo_defs = demo_db_def demo_env_def demo_env_failing_def demo_env_ids_def demo_req_def

lemmas route_defs =
  requireToken_def unauthorized_def catch_next_def then_p_def populate_one_def populate_all_def
  js_member_def deref_def js_assign_def js_delete_def
  find_docs_def findById_def create_def create_one_def created_toObject_def
  updateOne_def apply_update_def apply_entry_def set_entry_def is_field_def deleteOne_def
  toObject_def populate_def handle404_def requireOwnership_def removeBlanks_mw_def Let_def

section \<open>Facts about the helpers and the store\<close>

lemma removeBlanks_value_blank: "removeBlanks_value v = JStr [] \<longleftrightarrow> v = JStr []"
  by (cases v) auto

lemma removeBlanks_value_null: "removeBlanks_value v = JNull \<longleftrightarrow> v = JNull"
  by (cases v) auto

lemma removeBlanks_idem:
  "removeBlanks (removeBlanks m) = removeBlanks m"
  "removeBlanks_value (removeBlanks_value v) = removeBlanks_value v"
  by (induction m and v rule: removeBlanks_removeBlanks_value.induct)
     (auto simp: removeBlanks_value_blank)

lemma removeBlanks_no_blanks:
  "no_blanks m \<Longrightarrow> removeBlanks m = m"
  "no_blanks_value v \<Longrightarrow> removeBlanks_value v = v"
  by (induction m and v rule: removeBlanks_removeBlanks_value.induct) auto

lemma member_removeBlanks_mw:
  "js_member (body (removeBlanks_mw req)) k = map_option removeBlanks_value (js_member (body req) k)"
  by (cases "body req") (simp_all add: removeBlanks_mw_def js_member_def map_of_map)

lemma deref_removeBlanks_mw:
  "deref (js_member (body (removeBlanks_mw req)) k) =
     then_p (deref (js_member (body req) k)) (\<lambda>v. Inr (removeBlanks_value v))"
  by (cases "js_member (body req) k")
     (simp_all add: member_removeBlanks_mw deref_def then_p_def removeBlanks_value_null)

lemma deref_removeBlanks_mw_value:
  "js_member (body req) k = Some v \<Longrightarrow> v \<noteq> JNull \<Longrightarrow>
     deref (js_member (body (removeBlanks_mw req)) k) = Inr (removeBlanks_value v)"
  unfolding deref_removeBlanks_mw by (simp add: deref_def then_p_def)

lemma deref_removeBlanks_mw_none:
  "js_member (body req) k = None \<or> js_member (body req) k = Some JNull \<Longrightarrow>
     deref (js_member (body (removeBlanks_mw req)) k) = Inl TypeError"
  unfolding deref_removeBlanks_mw by (auto simp: deref_def then_p_def)

lemma params_id_removeBlanks_mw: "params_id (removeBlanks_mw req) = params_id req"
  by (simp add: removeBlanks_mw_def)

lemma requireToken_Some:
  "token req = Some t \<Longrightarrow> verify e t = Some uid \<Longrightarrow> requireToken e req = Some uid"
  by (simp add: requireToken_def)

lemma requireToken_removeBlanks_mw: "requireToken e (removeBlanks_mw req) = requireToken e req"
  by (simp add: requireToken_def removeBlanks_mw_def)

lemma toObject_inject: "toObject a = toObject b \<Longrightarrow> a = b"
  by (simp add: toObject_def prod_eq_iff)


section \<open>The properties\<close>

text \<open>
  C1, at a list payload: \<open>u1\<close> posts a product, and a favorite, whose payload is a
  list of one object that names \<open>u2\<close> as owner. The assignment of the owner lands on
  the list, not on its element; \<open>create\<close> stores the element as a document owned by
  \<open>u2\<close>; the reply fails with a TypeError, and the document stays stored. With the same
  object as the payload itself the stored document is owned by \<open>u1\<close>.
\<close>

theorem list_payload_keeps_client_owner:
  "post_products demo_env
     (demo_req ''t1'' []
        (JObj [(''product'', JArr [JObj [(''category'', JStr ''tools''), (''owner'', JStr ''u2'')]])]))
     demo_db =
     \<lparr>sent = Next TypeError,
      store = demo_db\<lparr>products := products demo_db @
        [(''new'', [(''category'', JStr ''tools''), (''owner'', JStr ''u2'')])]\<rparr>,
      unhandled = []\<rparr>
   \<and> post_favorites demo_env
     (demo_req ''t1'' []
        (JObj [(''favorite'', JArr [JObj [(''product'', JStr ''p2''), (''owner'', JStr ''u2'')]])]))
     demo_db =
     \<lparr>sent = Next TypeError,
      store = demo_db\<lparr>favorites := favorites demo_db @
        [(''new'', [(''product'', JStr ''p2''), (''owner'', JStr ''u2'')])]\<rparr>,
      unhandled = []\<rparr>
   \<and> post_products demo_env
     (demo_req ''t1'' []
        (JObj [(''product'', JObj [(''category'', JStr ''tools''), (''owner'', JStr ''u2'')])]))
     demo_db =
     \<lparr>sent = Respond 201 (Some (JObj [(''product'',
         JObj [(''_id'', JStr ''new''), (''category'', JStr ''tools''), (''owner'', JStr ''u1'')])])),
      store = demo_db\<lparr>products := products demo_db @
        [(''new'', [(''category'', JStr ''tools''), (''owner'', JStr ''u1'')])]\<rparr>,
      unhandled = []\<rparr>"
  by (simp add: post_products_def post_favorites_def route_defs demo_defs)

text \<open>
  C2, at a \<open>$set\<close> payload: \<open>u1\<close> patches the own product \<open>p1\<close> with the payload
  \<open>{$set: {owner: u2}}\<close>. Only a top-level \<open>owner\<close> key is deleted from the payload,
  so the update reaches the store and the stored owner changes from \<open>u1\<close> to \<open>u2\<close>.
  With \<open>owner\<close> at the top level of the payload the stored owner stays \<open>u1\<close>.
\<close>

theorem set_operator_changes_owner:
  "patch_products_id demo_env
     (demo_req ''t1'' ''p1''
        (JObj [(''product'', JObj [(''$set'', JObj [(''owner'', JStr ''u2'')])])]))
     demo_db =
     \<lparr>sent = Respond 204 None,
      store = demo_db\<lparr>products :=
        [(''p1'', [(''category'', JStr ''tools''), (''owner'', JStr ''u2'')]),
         (''p2'', [(''category'', JStr ''toys''), (''owner'', JStr ''u2'')])]\<rparr>,
      unhandled = []\<rparr>
   \<and> owner_of (products demo_db) ''p1'' = Some (Some (JStr ''u1''))
   \<and> owner_of (products (store (patch_products_id demo_env
        (demo_req ''t1'' ''p1''
           (JObj [(''product'', JObj [(''$set'', JObj [(''owner'', JStr ''u2'')])])]))
        demo_db))) ''p1'' = Some (Some (JStr ''u2''))
   \<and> patch_products_id demo_env
     (demo_req ''t1'' ''p1''
        (JObj [(''product'', JObj [(''category'', JStr ''garden''), (''owner'', JStr ''u2'')])]))
     demo_db =
     \<lparr>sent = Respond 204 None,
      store = demo_db\<lparr>products :=
        [(''p1'', [(''category'', JStr ''garden''), (''owner'', JStr ''u1'')]),
         (''p2'', [(''category'', JStr ''toys''), (''owner'', JStr ''u2'')])]\<rparr>,
      unhandled = []\<rparr>"
  by (simp add: patch_products_id_def owner_of_def route_defs demo_defs)

text \<open>
  C3, as amended. When the requester is authenticated as \<open>uid\<close>, the lookup finds the
  resource and the resource's owner is not \<open>uid\<close>: PATCH /products/:id with any value
  but null under the \<open>product\<close> key of the body, DELETE /products/:id and
  DELETE /favorites/:id pass Forbidden to \<open>next\<close>, and the store is as it was. A PATCH
  whose body has no value, or null, under the \<open>product\<close> key throws a TypeError before
  the lookup, and the store is as it was.
\<close>

theorem non_owner_is_forbidden:
  assumes "token req = Some t" and "verify e t = Some uid"
    and "lookup_fails e (params_id req) = None"
    and "map_of fs ''owner'' \<noteq> Some (JStr uid)"
  shows "(map_of (products d) (params_id req) = Some fs \<longrightarrow>
            (\<forall>payload. js_member (body req) ''product'' = Some payload \<and> payload \<noteq> JNull \<longrightarrow>
               patch_products_id e req d = \<lparr>sent = Next Forbidden, store = d, unhandled = []\<rparr>)
            \<and> (js_member (body req) ''product'' = None
                 \<or> js_member (body req) ''product'' = Some JNull \<longrightarrow>
               patch_products_id e req d = \<lparr>sent = Throws TypeError, store = d, unhandled = []\<rparr>)
            \<and> delete_products_id e req d = \<lparr>sent = Next Forbidden, store = d, unhandled = []\<rparr>)
       \<and> (map_of (favorites d) (params_id req) = Some fs \<longrightarrow>
            delete_favorites_id e req d = \<lparr>sent = Next Forbidden, store = d, unhandled = []\<rparr>)"
proof -
  have auth: "requireToken e req = Some uid"
    using assms(1,2) by (rule requireToken_Some)
  have guard: "requireOwnership uid (params_id req, fs) = Inl Forbidden"
    using assms(4) by (simp add: requireOwnership_def)
  show ?thesis
    using auth guard assms(3)
    by (auto simp: patch_products_id_def delete_products_id_def delete_favorites_id_def
          Let_def then_p_def findById_def handle404_def deref_removeBlanks_mw_value
          deref_removeBlanks_mw_none params_id_removeBlanks_mw requireToken_removeBlanks_mw)
qed

text \<open>
  A run: \<open>u2\<close> tries to patch product \<open>p1\<close>, once with an object and once with a
  list as payload, and to delete it, and to delete favorite \<open>f1\<close>; all are owned by
  \<open>u1\<close>.
\<close>

theorem non_owner_is_forbidden_witness:
  "patch_products_id demo_env
     (demo_req ''t2'' ''p1'' (JObj [(''product'', JObj [(''category'', JStr ''garden'')])])) demo_db =
     \<lparr>sent = Next Forbidden, store = demo_db, unhandled = []\<rparr>
   \<and> delete_products_id demo_env
     (demo_req ''t2'' ''p1'' (JObj [(''product'', JObj [(''category'', JStr ''garden'')])])) demo_db =
     \<lparr>sent = Next Forbidden, store = demo_db, unhandled = []\<rparr>
   \<and> patch_products_id demo_env
     (demo_req ''t2'' ''p1'' (JObj [(''product'', JArr [])])) demo_db =
     \<lparr>sent = Next Forbidden, store = demo_db, unhandled = []\<rparr>
   \<and> delete_favorites_id demo_env (demo_req ''t2'' ''f1'' (JObj [])) demo_db =
     \<lparr>sent = Next Forbidden, store = demo_db, unhandled = []\<rparr>"
proof -
  let ?req = "demo_req ''t2'' ''p1'' (JObj [(''product'', JObj [(''category'', JStr ''garden'')])])"
  let ?lreq = "demo_req ''t2'' ''p1'' (JObj [(''product'', JArr [])])"
  let ?fs = "[(''category'', JStr ''tools''), (''owner'', JStr ''u1'')]"
  let ?freq = "demo_req ''t2'' ''f1'' (JObj [])"
  let ?ffs = "[(''product'', JStr ''p1''), (''owner'', JStr ''u1'')]"
  have ver: "verify demo_env ''t2'' = Some ''u2''" by (simp add: demo_env_def)
  have p: "token ?req = Some ''t2''" "lookup_fails demo_env (params_id ?req) = None"
    "map_of ?fs ''owner'' \<noteq> Some (JStr ''u2'')"
    "map_of (products demo_db) (params_id ?req) = Some ?fs"
    "js_member (body ?req) ''product'' = Some (JObj [(''category'', JStr ''garden'')])"
    by (simp_all add: demo_defs js_member_def)
  have l: "token ?lreq = Some ''t2''" "lookup_fails demo_env (params_id ?lreq) = None"
    "map_of (products demo_db) (params_id ?lreq) = Some ?fs"
    "js_member (body ?lreq) ''product'' = Some (JArr [])"
    by (simp_all add: demo_defs js_member_def)
  have f: "token ?freq = Some ''t2''" "lookup_fails demo_env (params_id ?freq) = None"
    "map_of ?ffs ''owner'' \<noteq> Some (JStr ''u2'')"
    "map_of (favorites demo_db) (params_id ?freq) = Some ?ffs"
    by (simp_all add: demo_defs)
  from non_owner_is_forbidden [OF p(1) ver p(2) p(3), of demo_db] p(4) p(5)
  have "patch_products_id demo_env ?req demo_db =
          \<lparr>sent = Next Forbidden, store = demo_db, unhandled = []\<rparr>
      \<and> delete_products_id demo_env ?req demo_db =
          \<lparr>sent = Next Forbidden, store = demo_db, unhandled = []\<rparr>"
    by blast
  moreover from non_owner_is_forbidden [OF l(1) ver l(2) p(3), of demo_db] l(3) l(4)
  have "patch_products_id demo_env ?lreq demo_db =
          \<lparr>sent = Next Forbidden, store = demo_db, unhandled = []\<rparr>"
    by blast
  moreover from non_owner_is_forbidden [OF f(1) ver f(2) f(3), of demo_db] f(4)
  have "delete_favorites_id demo_env ?freq demo_db =
          \<lparr>sent = Next Forbidden, store = demo_db, unhandled = []\<rparr>"
    by blast
  ultimately show ?thesis by simp
qed

text \<open>
  C3 as first stated fails: \<open>u2\<close> sends PATCH /products/p1 with the body \<open>{}\<close>.
  Product \<open>p1\<close> is stored and owned by \<open>u1\<close>, yet the handler throws a TypeError and
  passes no Forbidden.
\<close>

theorem non_owner_patch_without_payload:
  "map_of (products demo_db) ''p1'' = Some [(''category'', JStr ''tools''), (''owner'', JStr ''u1'')]
   \<and> verify demo_env ''t2'' = Some ''u2''
   \<and> patch_products_id demo_env (demo_req ''t2'' ''p1'' (JObj [])) demo_db =
       \<lparr>sent = Throws TypeError, store = demo_db, unhandled = []\<rparr>
   \<and> sent (patch_products_id demo_env (demo_req ''t2'' ''p1'' (JObj [])) demo_db) \<noteq> Next Forbidden"
  by (simp add: patch_products_id_def route_defs demo_defs)







text \<open>
  C7. GET /products/category/:category, when the store answers the query: the reply is
  200 with the stored products whose \<open>category\<close> field equals the path's value, in
  stored order, and no others: a document is in the reply exactly when it is stored and
  its category is that value. The store is not changed.
\<close>

theorem category_exact:
  assumes "query_fails e = None"
  shows "\<exists>objs.
           get_products_category e req d =
             \<lparr>sent = Respond 200 (Some (JObj [(''products'', JArr objs)])),
              store = d, unhandled = []\<rparr>
         \<and> objs = map toObject
              (filter (\<lambda>doc. map_of (snd doc) ''category'' = Some (JStr (params_category req)))
                 (products d))
         \<and> (\<forall>doc. (toObject doc \<in> set objs) =
              (doc \<in> set (products d)
               \<and> map_of (snd doc) ''category'' = Some (JStr (params_category req))))"
  using assms
  by (auto simp: get_products_category_def catch_next_def then_p_def find_docs_def Let_def
        dest: toObject_inject)

text \<open>A run: of the two stored products only \<open>p1\<close> is in category \<open>tools\<close>.\<close>

theorem category_exact_witness:
  "get_products_category demo_env (demo_req ''t1'' [] (JObj [])) demo_db =
     \<lparr>sent = Respond 200 (Some (JObj [(''products'',
         JArr [JObj [(''_id'', JStr ''p1''), (''category'', JStr ''tools''),
                     (''owner'', JStr ''u1'')]])])),
      store = demo_db, unhandled = []\<rparr>"
proof -
  have q: "query_fails demo_env = None" by (simp add: demo_env_def)
  have objs: "map toObject
      (filter (\<lambda>doc. map_of (snd doc) ''category'' =
                  Some (JStr (params_category (demo_req ''t1'' [] (JObj []))))) (products demo_db)) =
      [JObj [(''_id'', JStr ''p1''), (''category'', JStr ''tools''), (''owner'', JStr ''u1'')]]"
    by (simp add: toObject_def demo_defs)
  from category_exact [OF q, of "demo_req ''t1'' [] (JObj [])" demo_db] objs
  show ?thesis by auto
qed

text \<open>
  C8. The blank-field stripper maps \<open>{title: '', text: 'foo'}\<close> to \<open>{text: 'foo'}\<close>; a
  mapping with no empty-string value (at any depth) is left unchanged; and stripping a
  stripped mapping changes nothing.
\<close>

theorem removeBlanks_example_fixpoint_idempotent:
  "removeBlanks [(''title'', JStr ''''), (''text'', JStr ''foo'')] = [(''text'', JStr ''foo'')]
   \<and> (no_blanks m \<longrightarrow> removeBlanks m = m)
   \<and> removeBlanks (removeBlanks m) = removeBlanks m"
  by (simp add: removeBlanks_idem removeBlanks_no_blanks)

text \<open>A run on a nested mapping: once with blanks, once without.\<close>

theorem removeBlanks_example_fixpoint_idempotent_witness:
  "no_blanks [(''text'', JStr ''foo''), (''dims'', JObj [(''w'', JNum 2)])]
   \<and> removeBlanks [(''text'', JStr ''foo''), (''dims'', JObj [(''w'', JNum 2)])] =
       [(''text'', JStr ''foo''), (''dims'', JObj [(''w'', JNum 2)])]
   \<and> removeBlanks [(''title'', JStr ''''), (''dims'', JObj [(''w'', JNum 2), (''unit'', JStr '''')])] =
       [(''dims'', JObj [(''w'', JNum 2)])]
   \<and> removeBlanks (removeBlanks
         [(''title'', JStr ''''), (''dims'', JObj [(''w'', JNum 2), (''unit'', JStr '''')])]) =
       [(''dims'', JObj [(''w'', JNum 2)])]"
proof -
  have nb: "no_blanks [(''text'', JStr ''foo''), (''dims'', JObj [(''w'', JNum 2)])]"
    by simp
  have once: "removeBlanks
      [(''title'', JStr ''''), (''dims'', JObj [(''w'', JNum 2), (''unit'', JStr '''')])] =
      [(''dims'', JObj [(''w'', JNum 2)])]"
    by simp
  from removeBlanks_example_fixpoint_idempotent
         [of "[(''text'', JStr ''foo''), (''dims'', JObj [(''w'', JNum 2)])]"] nb
  have "removeBlanks [(''text'', JStr ''foo''), (''dims'', JObj [(''w'', JNum 2)])] =
          [(''text'', JStr ''foo''), (''dims'', JObj [(''w'', JNum 2)])]"
    by blast
  moreover from removeBlanks_example_fixpoint_idempotent
         [of "[(''title'', JStr ''''), (''dims'', JObj [(''w'', JNum 2), (''unit'', JStr '''')])]"]
  have "removeBlanks (removeBlanks
         [(''title'', JStr ''''), (''dims'', JObj [(''w'', JNum 2), (''unit'', JStr '''')])]) =
       removeBlanks [(''title'', JStr ''''), (''dims'', JObj [(''w'', JNum 2), (''unit'', JStr '''')])]"
    by blast
  ultimately show ?thesis using nb once by simp
qed

text \<open>
  C9. DELETE /products/:id and DELETE /favorites/:id, when the requester is authenticated
  as \<open>uid\<close>, the lookup finds the resource and \<open>uid\<close> owns it: the reply is 204 whether
  \<open>deleteOne\<close> succeeds or not. When \<open>deleteOne\<close> is rejected, the reply is still 204,
  nothing is passed to \<open>next\<close>, the store is as it was and the rejection stays unhandled.
\<close>

theorem delete_replies_204_whatever_deleteOne:
  assumes "token req = Some t" and "verify e t = Some uid"
    and "lookup_fails e (params_id req) = None"
    and "map_of fs ''owner'' = Some (JStr uid)"
  shows "(map_of (products d) (params_id req) = Some fs \<longrightarrow>
            sent (delete_products_id e req d) = Respond 204 None
            \<and> (\<forall>err. delete_fails e (params_id req) = Some err \<longrightarrow>
                  delete_products_id e req d =
                    \<lparr>sent = Respond 204 None, store = d, unhandled = [err]\<rparr>))
       \<and> (map_of (favorites d) (params_id req) = Some fs \<longrightarrow>
            sent (delete_favorites_id e req d) = Respond 204 None
            \<and> (\<forall>err. delete_fails e (params_id req) = Some err \<longrightarrow>
                  delete_favorites_id e req d =
                    \<lparr>sent = Respond 204 None, store = d, unhandled = [err]\<rparr>))"
proof -
  have auth: "requireToken e req = Some uid"
    using assms(1,2) by (rule requireToken_Some)
  have guard: "requireOwnership uid (params_id req, fs) = Inr ()"
    using assms(4) by (simp add: requireOwnership_def)
  show ?thesis
    using auth guard assms(3)
    by (auto simp: delete_products_id_def delete_favorites_id_def then_p_def findById_def
          handle404_def deleteOne_def split: option.splits sum.splits)
qed

text \<open>
  A run: \<open>u1\<close> deletes the own product \<open>p1\<close> against a store that answers, and the
  own favorite \<open>f1\<close> against a store that rejects every deletion.
\<close>

theorem delete_replies_204_whatever_deleteOne_witness:
  "sent (delete_products_id demo_env (demo_req ''t1'' ''p1'' (JObj [])) demo_db) = Respond 204 None
   \<and> products (store (delete_products_id demo_env (demo_req ''t1'' ''p1'' (JObj [])) demo_db)) =
       [(''p2'', [(''category'', JStr ''toys''), (''owner'', JStr ''u2'')])]
   \<and> delete_favorites_id demo_env_failing (demo_req ''t1'' ''f1'' (JObj [])) demo_db =
       \<lparr>sent = Respond 204 None, store = demo_db, unhandled = [DbError]\<rparr>"
proof -
  let ?preq = "demo_req ''t1'' ''p1'' (JObj [])"
  let ?pfs = "[(''category'', JStr ''tools''), (''owner'', JStr ''u1'')]"
  let ?freq = "demo_req ''t1'' ''f1'' (JObj [])"
  let ?ffs = "[(''product'', JStr ''p1''), (''owner'', JStr ''u1'')]"
  have ver: "verify demo_env ''t1'' = Some ''u1''" "verify demo_env_failing ''t1'' = Some ''u1''"
    by (simp_all add: demo_defs)
  have p: "token ?preq = Some ''t1''" "lookup_fails demo_env (params_id ?preq) = None"
    "map_of ?pfs ''owner'' = Some (JStr ''u1'')"
    "map_of (products demo_db) (params_id ?preq) = Some ?pfs"
    by (simp_all add: demo_defs)
  have f: "token ?freq = Some ''t1''" "lookup_fails demo_env_failing (params_id ?freq) = None"
    "map_of ?ffs ''owner'' = Some (JStr ''u1'')"
    "map_of (favorites demo_db) (params_id ?freq) = Some ?ffs"
    "delete_fails demo_env_failing (params_id ?freq) = Some DbError"
    by (simp_all add: demo_defs)
  have after: "products (store (delete_products_id demo_env ?preq demo_db)) =
       [(''p2'', [(''category'', JStr ''toys''), (''owner'', JStr ''u2'')])]"
    by (simp add: delete_products_id_def route_defs demo_defs)
  from delete_replies_204_whatever_deleteOne [OF p(1) ver(1) p(2) p(3), of demo_db] p(4)
  have "sent (delete_products_id demo_env ?preq demo_db) = Respond 204 None"
    by blast
  moreover from delete_replies_204_whatever_deleteOne [OF f(1) ver(2) f(2) f(3), of demo_db]
    f(4) f(5)
  have "delete_favorites_id demo_env_failing ?freq demo_db =
       \<lparr>sent = Respond 204 None, store = demo_db, unhandled = [DbError]\<rparr>"
    by blast
  ultimately show ?thesis using after by simp
qed

text \<open>
  C10. POST /products and PATCH /products/:id with no \<open>product\<close> key in the body, and
  POST /favorites with no \<open>favorite\<close> key, by an authenticated requester: the handler
  throws a TypeError before it calls the store, and the store is as it was.
\<close>

theorem missing_key_throws:
  assumes "token req = Some t" and "verify e t = Some uid"
  shows "(js_member (body req) ''product'' = None \<longrightarrow>
            post_products e req d = \<lparr>sent = Throws TypeError, store = d, unhandled = []\<rparr>
            \<and> patch_products_id e req d = \<lparr>sent = Throws TypeError, store = d, unhandled = []\<rparr>)
       \<and> (js_member (body req) ''favorite'' = None \<longrightarrow>
            post_favorites e req d = \<lparr>sent = Throws TypeError, store = d, unhandled = []\<rparr>)"
proof -
  have auth: "requireToken e req = Some uid"
    using assms by (rule requireToken_Some)
  show ?thesis
    using auth
    by (simp add: post_products_def patch_products_id_def post_favorites_def Let_def
          deref_removeBlanks_mw_none requireToken_removeBlanks_mw)
       (simp add: deref_def)
qed

text \<open>A run: \<open>u1\<close> sends a body whose only key is \<open>item\<close> to the three routes.\<close>

theorem missing_key_throws_witness:
  "post_products demo_env (demo_req ''t1'' ''p1'' (JObj [(''item'', JObj [(''category'', JStr ''tools'')])])) demo_db =
     \<lparr>sent = Throws TypeError, store = demo_db, unhandled = []\<rparr>
   \<and> patch_products_id demo_env (demo_req ''t1'' ''p1'' (JObj [(''item'', JObj [(''category'', JStr ''tools'')])])) demo_db =
     \<lparr>sent = Throws TypeError, store = demo_db, unhandled = []\<rparr>
   \<and> post_favorites demo_env (demo_req ''t1'' ''p1'' (JObj [(''item'', JObj [(''category'', JStr ''tools'')])])) demo_db =
     \<lparr>sent = Throws TypeError, store = demo_db, unhandled = []\<rparr>"
proof -
  let ?req = "demo_req ''t1'' ''p1'' (JObj [(''item'', JObj [(''category'', JStr ''tools'')])])"
  have ver: "verify demo_env ''t1'' = Some ''u1''" by (simp add: demo_env_def)
  have h: "token ?req = Some ''t1''" "js_member (body ?req) ''product'' = None"
    "js_member (body ?req) ''favorite'' = None"
    by (simp_all add: demo_defs js_member_def)
  from missing_key_throws [OF h(1) ver, of demo_db] h(2) h(3)
  show ?thesis by blast
qed

text \<open>
  C4, at DELETE: \<open>u1\<close> deletes the own product \<open>p1\<close>, and the own favorite \<open>f1\<close>,
  against a store that rejects the deletion with \<open>DbError\<close>. The reply is 204, the error
  is not passed to \<open>next\<close>, and the rejection stays unhandled. Against the same store
  PATCH /products/:id, which returns the promise of \<open>updateOne\<close> into its chain, passes
  the rejection of the update to \<open>next\<close>.
\<close>

theorem delete_failure_not_forwarded:
  "delete_products_id demo_env_failing (demo_req ''t1'' ''p1'' (JObj [])) demo_db =
     \<lparr>sent = Respond 204 None, store = demo_db, unhandled = [DbError]\<rparr>
   \<and> delete_favorites_id demo_env_failing (demo_req ''t1'' ''f1'' (JObj [])) demo_db =
     \<lparr>sent = Respond 204 None, store = demo_db, unhandled = [DbError]\<rparr>
   \<and> sent (delete_products_id demo_env_failing (demo_req ''t1'' ''p1'' (JObj [])) demo_db) \<noteq> Next DbError
   \<and> patch_products_id demo_env_failing
         (demo_req ''t1'' ''p1'' (JObj [(''product'', JObj [(''category'', JStr ''garden'')])])) demo_db =
     \<lparr>sent = Next DbError, store = demo_db, unhandled = []\<rparr>"
  by (simp add: delete_products_id_def delete_favorites_id_def patch_products_id_def
        route_defs demo_defs)

end
